theory Spec2Isabelle
  imports Complex_Main
begin

section \<open>Python strings\<close>

text \<open>
  A Python \<open>str\<close> is a sequence of Unicode code points; \<open>len\<close>, slicing, \<open>find\<close> and the
  regular expressions of the source all count code points. A string is therefore a list of
  code points (natural numbers), and an ASCII literal of the source is written
  \<open>str ''...''\<close>. The en dash of the source (U+2013) is the code point 8211.
\<close>

type_synonym pystr = "nat list"

definition str :: "string \<Rightarrow> pystr" where
  "str s = map of_char s"

text \<open>
  \<open>str.isspace\<close> for one code point, which is also what \<open>str.strip()\<close> removes and what
  \<open>\s\<close> matches in a \<open>str\<close> pattern (the full Unicode list).
\<close>

definition is_space :: "nat \<Rightarrow> bool" where
  "is_space c \<longleftrightarrow>
     (9 \<le> c \<and> c \<le> 13) \<or> (28 \<le> c \<and> c \<le> 32) \<or> c = 133 \<or> c = 160 \<or> c = 5760 \<or>
     (8192 \<le> c \<and> c \<le> 8202) \<or> c = 8232 \<or> c = 8233 \<or> c = 8239 \<or> c = 8287 \<or> c = 12288"

text \<open>\<open>s.strip()\<close>\<close>

definition strip :: "pystr \<Rightarrow> pystr" where
  "strip s = rev (dropWhile is_space (rev (dropWhile is_space s)))"

text \<open>\<open>s.split(sep)\<close> for a separator of one code point: never the empty list.\<close>

fun split :: "nat \<Rightarrow> pystr \<Rightarrow> pystr list" where
  "split sep [] = [[]]"
| "split sep (c # cs) =
     (if c = sep then [] # split sep cs
      else (case split sep cs of
              [] \<Rightarrow> [[c]]
            | p # ps \<Rightarrow> (c # p) # ps))"

section \<open>Vocabulary records and audio settings\<close>

text \<open>
  The dictionary the parser builds for one entry (keys \<open>number\<close>, \<open>english\<close>,
  \<open>pronunciation\<close>, \<open>polish\<close>, \<open>example\<close>, \<open>category\<close>). \<open>example\<close> and \<open>category\<close> may hold
  Python's \<open>None\<close>; the other keys always hold a value.
\<close>

record word =
  number :: nat
  english :: pystr
  pronunciation :: pystr
  polish :: pystr
  example :: "pystr option"
  category :: "pystr option"

text \<open>
  The settings dictionary: a key that is absent is \<open>None\<close>, and \<open>settings.get(key, default)\<close>
  then gives the default. Speeds and durations are Python floats, taken as rationals: the
  source only passes them on.
\<close>

record settings =
  speed :: "rat option"
  pause_between :: "rat option"
  repetitions :: "int option"
  include_examples :: "bool option"
  test_mode :: "pystr option"
  voice :: "pystr option"

definition DEFAULT_VOICE :: pystr where
  "DEFAULT_VOICE = str ''echo''"

definition TEST_PAUSE_DURATION :: rat where
  "TEST_PAUSE_DURATION = 2"

definition get_or :: "'a option \<Rightarrow> 'a \<Rightarrow> 'a" where
  "get_or v d = (case v of None \<Rightarrow> d | Some x \<Rightarrow> x)"

section \<open>The audio generator\<close>

text \<open>
  Files of the temporary directory of one run: \<open>silence_<n>.mp3\<close>, \<open>audio_<n>.mp3\<close> and
  \<open>output.mp3\<close>.
\<close>

datatype path = Silence_mp3 nat | Audio_mp3 nat | Output_mp3

type_synonym bytes = "nat list"

datatype error = SynthesisError

text \<open>
  The external collaborators of \<open>AudioGenerator\<close>.
  \<^item> \<open>text_to_speech text voice speed\<close> is \<open>OpenAIHelper.text_to_speech\<close>: the audio bytes, or
    \<open>None\<close> when the API call raises.
  \<^item> \<open>ffmpeg_silence duration\<close> is the ffmpeg process started by \<open>_generate_silence\<close>: its
    return code and the file it wrote, if any.
  \<^item> \<open>ffmpeg_concat file_list files\<close> is the ffmpeg process started by \<open>_concat_files\<close> on
    the listed files of the temporary directory: its return code and the \<open>output.mp3\<close> it
    left, if any.
  The ffmpeg executable is taken to start: \<open>subprocess.run\<close> returns.
\<close>

record env =
  text_to_speech :: "pystr \<Rightarrow> pystr \<Rightarrow> rat \<Rightarrow> bytes option"
  ffmpeg_silence :: "rat \<Rightarrow> int \<times> bytes option"
  ffmpeg_concat :: "path list \<Rightarrow> (path \<rightharpoonup> bytes) \<Rightarrow> int \<times> bytes option"

text \<open>
  The state of one run: \<open>self._file_counter\<close>, the content of the temporary directory, and
  the external calls made so far, in order: the durations asked of the silence generator
  and the (text, voice, speed) of each speech-synthesis call.
\<close>

record gen_state =
  file_counter :: nat
  files :: "path \<rightharpoonup> bytes"
  silence_log :: "rat list"
  tts_log :: "(pystr \<times> pystr \<times> rat) list"

type_synonym 'a gen = "gen_state \<Rightarrow> (error + 'a) \<times> gen_state"

definition ret :: "'a \<Rightarrow> 'a gen" where
  "ret x st = (Inr x, st)"

text \<open>Sequencing: an exception of the first statement skips the second.\<close>

definition bind :: "'a gen \<Rightarrow> ('a \<Rightarrow> 'b gen) \<Rightarrow> 'b gen" where
  "bind m f st = (case m st of (Inl e, st') \<Rightarrow> (Inl e, st') | (Inr x, st') \<Rightarrow> f x st')"

text \<open>\<open>AudioGenerator._generate_silence\<close>: a non-zero return code is printed, never raised.\<close>

definition generate_silence :: "env \<Rightarrow> rat \<Rightarrow> path gen" where
  "generate_silence E duration_sec st =
     (let n = file_counter st + 1;
          path = Silence_mp3 n;
          (returncode, written) = ffmpeg_silence E duration_sec
      in (Inr path,
          st\<lparr>file_counter := n,
             files := (case written of None \<Rightarrow> files st | Some b \<Rightarrow> (files st)(path \<mapsto> b)),
             silence_log := silence_log st @ [duration_sec]\<rparr>))"

text \<open>\<open>AudioGenerator._text_to_file\<close>\<close>

definition text_to_file :: "env \<Rightarrow> pystr \<Rightarrow> rat \<Rightarrow> pystr \<Rightarrow> path gen" where
  "text_to_file E text speed' voice' st =
     (let n = file_counter st + 1;
          path = Audio_mp3 n;
          st1 = st\<lparr>file_counter := n, tts_log := tts_log st @ [(text, voice', speed')]\<rparr>
      in case text_to_speech E text voice' speed' of
           None \<Rightarrow> (Inl SynthesisError, st1)
         | Some audio_bytes \<Rightarrow> (Inr path, st1\<lparr>files := (files st1)(path \<mapsto> audio_bytes)\<rparr>))"

text \<open>\<open>AudioGenerator._generate_word_files\<close>; an empty \<open>example\<close> is falsy.\<close>

definition generate_word_files ::
  "env \<Rightarrow> pystr \<Rightarrow> pystr \<Rightarrow> pystr \<Rightarrow> bool \<Rightarrow> pystr option \<Rightarrow> rat \<Rightarrow> pystr \<Rightarrow> path \<Rightarrow> path
     \<Rightarrow> path list gen" where
  "generate_word_files E english' polish' example' include_examples' test_mode' speed' voice'
       silence_1s silence_test =
     (if test_mode' = Some (str ''pl_to_en'') then
        bind (text_to_file E polish' speed' voice') (\<lambda>f1.
        bind (text_to_file E english' speed' voice') (\<lambda>f2.
        ret [f1, silence_test, f2]))
      else if test_mode' = Some (str ''en_to_pl'') then
        bind (text_to_file E english' speed' voice') (\<lambda>f1.
        bind (text_to_file E polish' speed' voice') (\<lambda>f2.
        ret [f1, silence_test, f2]))
      else
        bind (text_to_file E english' speed' voice') (\<lambda>f1.
        bind (text_to_file E polish' speed' voice') (\<lambda>f2.
        if include_examples' \<and> example' \<noteq> [] then
          bind (text_to_file E example' speed' voice') (\<lambda>f3.
          ret [f1, silence_1s, f2, silence_1s, f3])
        else ret [f1, silence_1s, f2])))"

text \<open>
  The values \<open>generate_audio\<close> reads from the settings, with its defaults, and the three
  silence files it made.
\<close>

record run =
  r_speed :: rat
  r_pause_between :: rat
  r_repetitions :: int
  r_include_examples :: bool
  r_test_mode :: "pystr option"
  r_voice :: pystr
  silence_1s_path :: path
  silence_between_path :: path
  silence_test_path :: path

text \<open>
  The repetition loop of \<open>generate_audio\<close>: \<open>for rep in range(repetitions)\<close>, which is empty
  for a count below one.
\<close>

definition repeat_files :: "int \<Rightarrow> path list \<Rightarrow> path \<Rightarrow> path list \<Rightarrow> path list" where
  "repeat_files reps word_files silence_1s file_list =
     foldl (\<lambda>fl rep. (fl @ word_files) @ (if int rep < reps - 1 then [silence_1s] else []))
       file_list [0 ..< nat reps]"

text \<open>
  The loop \<open>for i, word in enumerate(words, 1)\<close> of \<open>generate_audio\<close>: \<open>n\<close> is \<open>len(words)\<close>, and
  \<open>i\<close> counts every record, also the skipped ones. \<open>(word.get(key) or '')\<close> is the text of
  the key, empty for \<open>None\<close>, and \<open>english.split('(')[0]\<close> is the text before the first
  parenthesis.
\<close>

fun words_loop :: "env \<Rightarrow> run \<Rightarrow> nat \<Rightarrow> nat \<Rightarrow> word list \<Rightarrow> path list \<Rightarrow> path list gen" where
  "words_loop E R n i [] file_list = ret file_list"
| "words_loop E R n i (word # rest) file_list =
     (let english0 = strip (english word);
          polish' = strip (polish word);
          example' = strip (get_or (example word) [])
      in if english0 = [] \<or> polish' = [] then words_loop E R n (i + 1) rest file_list
         else
           let english' = (if 40 \<in> set english0 then strip (hd (split 40 english0)) else english0)
           in bind (generate_word_files E english' polish' example' (r_include_examples R)
                      (r_test_mode R) (r_speed R) (r_voice R)
                      (silence_1s_path R) (silence_test_path R)) (\<lambda>word_files.
              let file_list1 = repeat_files (r_repetitions R) word_files (silence_1s_path R) file_list;
                  file_list2 = (if i < n then file_list1 @ [silence_between_path R] else file_list1)
              in words_loop E R n (i + 1) rest file_list2))"

text \<open>
  Lines 49 to 106 of \<open>generate_audio\<close>: the settings are read, the three silences are
  generated, and the loop builds the list of files to join.
\<close>

definition build_file_list :: "env \<Rightarrow> word list \<Rightarrow> settings \<Rightarrow> path list gen" where
  "build_file_list E words S =
     (let speed' = get_or (speed S) 1;
          pause_between' = get_or (pause_between S) 2;
          repetitions' = get_or (repetitions S) 1;
          include_examples' = get_or (include_examples S) True;
          test_mode' = test_mode S;
          voice' = get_or (voice S) DEFAULT_VOICE
      in bind (generate_silence E 1) (\<lambda>silence_1s.
         bind (generate_silence E pause_between') (\<lambda>silence_between.
         bind (generate_silence E TEST_PAUSE_DURATION) (\<lambda>silence_test.
         words_loop E
           \<lparr>r_speed = speed', r_pause_between = pause_between', r_repetitions = repetitions',
            r_include_examples = include_examples', r_test_mode = test_mode', r_voice = voice',
            silence_1s_path = silence_1s, silence_between_path = silence_between,
            silence_test_path = silence_test\<rparr>
           (length words) 1 words []))))"

text \<open>
  \<open>AudioGenerator._concat_files\<close>: a non-zero return code is printed, never raised; the
  file ffmpeg left, if any, is \<open>output.mp3\<close>.
\<close>

definition concat_files :: "env \<Rightarrow> path list \<Rightarrow> unit gen" where
  "concat_files E file_list st =
     (let (returncode, out) = ffmpeg_concat E file_list (files st)
      in (Inr (),
          st\<lparr>files := (case out of None \<Rightarrow> (files st)(Output_mp3 := None)
                                 | Some b \<Rightarrow> (files st)(Output_mp3 \<mapsto> b))\<rparr>))"

text \<open>\<open>AudioGenerator._cleanup\<close>: the temporary directory is removed.\<close>

definition cleanup :: "gen_state \<Rightarrow> gen_state" where
  "cleanup st = st\<lparr>files := Map.empty\<rparr>"

text \<open>
  The state in which \<open>generate_audio\<close> starts its work: a new temporary directory, the
  counter at zero, no external call made yet.
\<close>

definition init_state :: gen_state where
  "init_state = \<lparr>file_counter = 0, files = Map.empty, silence_log = [], tts_log = []\<rparr>"

text \<open>
  Lines 114 to 126 of \<open>generate_audio\<close>: the content of \<open>output.mp3\<close> if the file exists,
  an empty buffer otherwise.
\<close>

definition read_output :: "bytes gen" where
  "read_output st =
     (case files st Output_mp3 of
        Some content \<Rightarrow> (Inr content, st)
      | None \<Rightarrow> (Inr [], st))"

text \<open>
  \<open>AudioGenerator.generate_audio\<close>. The first component is the content of the returned
  buffer, or the exception. The list \<open>words\<close> and its dictionaries are shared with the caller
  and the source assigns to none of them: the second component is the caller's list after
  the call. The last component is the state after the \<open>finally\<close> block.
\<close>

definition generate_audio ::
  "env \<Rightarrow> word list \<Rightarrow> settings \<Rightarrow> (error + bytes) \<times> word list \<times> gen_state" where
  "generate_audio E words S =
     (case bind (build_file_list E words S) (\<lambda>file_list.
           bind (concat_files E file_list) (\<lambda>_. read_output)) init_state of
        (res, st) \<Rightarrow> (res, words, cleanup st))"

section \<open>The word parser\<close>

subsection \<open>Character classes and string methods\<close>

text \<open>
  \<open>\d\<close> in a \<open>str\<close> pattern, and the case tables of \<open>str.isupper\<close> and \<open>str.lower\<close>, for the
  code points below U+0180 (Basic Latin, Latin-1 and Latin Extended-A, which hold the
  English and Polish alphabets). Beyond that range Python consults the Unicode database;
  here such a code point is neither a digit nor a cased letter.
\<close>

definition is_digit :: "nat \<Rightarrow> bool" where
  "is_digit c \<longleftrightarrow> 48 \<le> c \<and> c \<le> 57"

definition is_upper_cp :: "nat \<Rightarrow> bool" where
  "is_upper_cp c \<longleftrightarrow>
     (65 \<le> c \<and> c \<le> 90) \<or> (192 \<le> c \<and> c \<le> 222 \<and> c \<noteq> 215) \<or>
     (256 \<le> c \<and> c \<le> 311 \<and> even c) \<or> (313 \<le> c \<and> c \<le> 328 \<and> odd c) \<or>
     (330 \<le> c \<and> c \<le> 375 \<and> even c) \<or> c = 376 \<or> (377 \<le> c \<and> c \<le> 382 \<and> odd c)"

definition is_lower_cp :: "nat \<Rightarrow> bool" where
  "is_lower_cp c \<longleftrightarrow>
     (97 \<le> c \<and> c \<le> 122) \<or> c = 170 \<or> c = 181 \<or> c = 186 \<or>
     (223 \<le> c \<and> c \<le> 255 \<and> c \<noteq> 247) \<or>
     (256 \<le> c \<and> c \<le> 311 \<and> odd c) \<or> c = 312 \<or> (313 \<le> c \<and> c \<le> 328 \<and> even c) \<or>
     c = 329 \<or> (330 \<le> c \<and> c \<le> 375 \<and> odd c) \<or> (377 \<le> c \<and> c \<le> 382 \<and> even c) \<or>
     c = 383"

text \<open>\<open>chr(c).lower()\<close>: one code point, but two for U+0130.\<close>

definition lower_cp :: "nat \<Rightarrow> pystr" where
  "lower_cp c =
     (if (65 \<le> c \<and> c \<le> 90) \<or> (192 \<le> c \<and> c \<le> 222 \<and> c \<noteq> 215) then [c + 32]
      else if c = 304 then [105, 775]
      else if c = 376 then [255]
      else if is_upper_cp c then [c + 1]
      else [c])"

text \<open>\<open>s.lower()\<close>\<close>

definition lower :: "pystr \<Rightarrow> pystr" where
  "lower s = concat (map lower_cp s)"

text \<open>\<open>s.isupper()\<close>: some cased character, and no lower-case one.\<close>

definition isupper :: "pystr \<Rightarrow> bool" where
  "isupper s \<longleftrightarrow> (\<exists>c \<in> set s. is_upper_cp c) \<and> (\<forall>c \<in> set s. \<not> is_lower_cp c)"

text \<open>\<open>s.startswith(prefix)\<close>\<close>

definition startswith :: "pystr \<Rightarrow> pystr \<Rightarrow> bool" where
  "startswith s prefix \<longleftrightarrow> take (length prefix) s = prefix"

text \<open>\<open>s.find(sub)\<close>: the lowest index, \<open>None\<close> for Python's \<open>-1\<close>; \<open>sub in s\<close> is \<open>find_str s sub \<noteq> None\<close>.\<close>

fun find_str :: "pystr \<Rightarrow> pystr \<Rightarrow> nat option" where
  "find_str [] sub = (if sub = [] then Some 0 else None)"
| "find_str (c # cs) sub =
     (if startswith (c # cs) sub then Some 0 else map_option Suc (find_str cs sub))"


text \<open>
  \<open>int(digits)\<close> for a run of ASCII digits, and \<open>str(n)\<close> for a number that is not negative.
  The interpreter's limit on the length of the run that \<open>int\<close> converts (4300 digits by
  default, a \<open>ValueError\<close> beyond) is outside the model.
\<close>

definition int_of_digits :: "pystr \<Rightarrow> nat" where
  "int_of_digits ds = foldl (\<lambda>n c. 10 * n + (c - 48)) 0 ds"



subsection \<open>The regular expressions\<close>

text \<open>
  \<open>re.match\<close> tries the alternatives of a pattern in priority order, a greedy repetition
  from its longest run down and a lazy one from its shortest up, and returns the first
  match. The functions below follow that order for the three patterns of the source.

  The separator pattern \<open>^-+$\<close>; \<open>$\<close> also matches before a final newline.
\<close>

definition is_separator :: "pystr \<Rightarrow> bool" where
  "is_separator s \<longleftrightarrow>
     (let b = (if s \<noteq> [] \<and> last s = 10 then butlast s else s)
      in b \<noteq> [] \<and> (\<forall>c \<in> set b. c = 45))"

text \<open>
  \<open>word_pattern\<close>, \<open>(\d+)\.\s+(.+?)\s*\(([^)]+)\)\s*[\<emdash>-]\s*(.+)\<close>, where the first
  character of the class is the en dash of the source. From the right: the last group
  \<open>(.+)\<close> takes the rest of its line.
\<close>

definition dot_plus :: "pystr \<Rightarrow> pystr option" where
  "dot_plus s = (let g = takeWhile (\<lambda>c. c \<noteq> 10) s in if g = [] then None else Some g)"

text \<open>\<open>\s*(.+)\<close>: the spaces give characters back when nothing is left for the group.\<close>

fun spaces_dot_plus :: "pystr \<Rightarrow> pystr option" where
  "spaces_dot_plus [] = None"
| "spaces_dot_plus (c # cs) =
     (if is_space c then
        (case spaces_dot_plus cs of Some g \<Rightarrow> Some g | None \<Rightarrow> dot_plus (c # cs))
      else dot_plus (c # cs))"

text \<open>
  \<open>\s*\(([^)]+)\)\s*[\<emdash>-]\s*(.+)\<close>, what follows the headword group: each repetition is
  followed by a character it cannot match itself, so only its longest run can succeed.
\<close>

definition match_tail :: "pystr \<Rightarrow> (pystr \<times> pystr) option" where
  "match_tail s =
     (case dropWhile is_space s of
        [] \<Rightarrow> None
      | c # r \<Rightarrow>
          if c \<noteq> 40 then None
          else
            let g3 = takeWhile (\<lambda>x. x \<noteq> 41) r;
                r' = dropWhile (\<lambda>x. x \<noteq> 41) r
            in if g3 = [] \<or> r' = [] then None
               else (case dropWhile is_space (tl r') of
                       [] \<Rightarrow> None
                     | d # r'' \<Rightarrow>
                         if d = 8211 \<or> d = 45 then map_option (Pair g3) (spaces_dot_plus r'')
                         else None))"

text \<open>
  The lazy headword group \<open>(.+?)\<close>, which has taken \<open>acc\<close>: one more character, then the
  rest of the pattern, and a longer group when that fails.
\<close>

fun lazy_group :: "pystr \<Rightarrow> pystr \<Rightarrow> (pystr \<times> pystr \<times> pystr) option" where
  "lazy_group acc [] = None"
| "lazy_group acc (c # cs) =
     (if c = 10 then None
      else (case match_tail cs of
              Some (g3, g4) \<Rightarrow> Some (acc @ [c], g3, g4)
            | None \<Rightarrow> lazy_group (acc @ [c]) cs))"

text \<open>\<open>\s+\<close> before the headword group: greedy, one space at least.\<close>

fun spaces_plus :: "pystr \<Rightarrow> (pystr \<times> pystr \<times> pystr) option" where
  "spaces_plus [] = None"
| "spaces_plus (c # cs) =
     (if is_space c then
        (case spaces_plus cs of Some m \<Rightarrow> Some m | None \<Rightarrow> lazy_group [] cs)
      else None)"

text \<open>\<open>re.match(word_pattern, s)\<close>: the four groups.\<close>

definition match_word :: "pystr \<Rightarrow> (pystr \<times> pystr \<times> pystr \<times> pystr) option" where
  "match_word s =
     (let g1 = takeWhile is_digit s
      in if g1 = [] then None
         else (case dropWhile is_digit s of
                 [] \<Rightarrow> None
               | c # r \<Rightarrow> if c = 46 then map_option (Pair g1) (spaces_plus r) else None))"

text \<open>
  \<open>re.match(example_pattern, s, re.IGNORECASE)\<close> for \<open>^ex:\s*(.+)$\<close>: the group must reach
  the end of the string, or a final newline.
\<close>

definition dot_plus_end :: "pystr \<Rightarrow> pystr option" where
  "dot_plus_end s =
     (let g = takeWhile (\<lambda>c. c \<noteq> 10) s;
          rest = dropWhile (\<lambda>c. c \<noteq> 10) s
      in if g \<noteq> [] \<and> (rest = [] \<or> rest = [10]) then Some g else None)"

fun spaces_dot_plus_end :: "pystr \<Rightarrow> pystr option" where
  "spaces_dot_plus_end [] = None"
| "spaces_dot_plus_end (c # cs) =
     (if is_space c then
        (case spaces_dot_plus_end cs of Some g \<Rightarrow> Some g | None \<Rightarrow> dot_plus_end (c # cs))
      else dot_plus_end (c # cs))"

definition match_example :: "pystr \<Rightarrow> pystr option" where
  "match_example s =
     (case s of
        e # x # c # r \<Rightarrow>
          if (e = 101 \<or> e = 69) \<and> (x = 120 \<or> x = 88) \<and> c = 58 then spaces_dot_plus_end r
          else None
      | _ \<Rightarrow> None)"

subsection \<open>The parsers\<close>

text \<open>The three local variables the loops of \<open>parse_text\<close> and \<open>parse_document\<close> update.\<close>

record parse_state =
  words :: "word list"
  current_category :: "pystr option"
  current_word :: "word option"

definition init_parse :: parse_state where
  "init_parse = \<lparr>words = [], current_category = None, current_word = None\<rparr>"

text \<open>\<open>if current_word: words.append(current_word)\<close>\<close>

definition append_current :: "parse_state \<Rightarrow> word list" where
  "append_current st =
     (case current_word st of None \<Rightarrow> words st | Some w \<Rightarrow> words st @ [w])"

text \<open>The body of the loop of \<open>parse_text\<close> for one line.\<close>

definition text_step :: "parse_state \<Rightarrow> pystr \<Rightarrow> parse_state" where
  "text_step st line0 =
     (let line = strip line0
      in if line = [] \<or> is_separator line then st
         else if isupper line \<and> length line > 2 then st\<lparr>current_category := Some line\<rparr>
         else
           (case match_word line of
              Some (g1, g2, g3, g4) \<Rightarrow>
                let polish_text = strip g4;
                    (actual_polish, example_text) =
                      (case find_str (lower polish_text) (str ''ex:'') of
                         Some ex_pos \<Rightarrow>
                           (strip (take ex_pos polish_text),
                            Some (strip (drop (ex_pos + 3) polish_text)))
                       | None \<Rightarrow> (polish_text, None))
                in st\<lparr>words := append_current st,
                      current_word := Some
                        \<lparr>number = int_of_digits g1, english = strip g2,
                         pronunciation = strip g3, polish = actual_polish,
                         example = example_text, category = current_category st\<rparr>\<rparr>
            | None \<Rightarrow>
                (case current_word st of
                   None \<Rightarrow> st
                 | Some w \<Rightarrow>
                     (case match_example line of
                        Some g \<Rightarrow> st\<lparr>current_word := Some (w\<lparr>example := Some (strip g)\<rparr>)\<rparr>
                      | None \<Rightarrow>
                          if startswith (lower line) (str ''ex:'')
                          then st\<lparr>current_word := Some (w\<lparr>example := Some (strip (drop 3 line))\<rparr>)\<rparr>
                          else st))))"

text \<open>\<open>WordParser.parse_text\<close>\<close>

definition parse_lines :: "pystr list \<Rightarrow> word list" where
  "parse_lines lines = append_current (foldl text_step init_parse lines)"

definition parse_text :: "pystr \<Rightarrow> word list" where
  "parse_text text = parse_lines (split 10 (strip text))"

text \<open>
  The body of the loop of \<open>parse_document\<close> for the text of one paragraph. A paragraph
  with a newline is first read as a headword line and an example line.
\<close>

definition doc_step :: "parse_state \<Rightarrow> pystr \<Rightarrow> parse_state" where
  "doc_step st para =
     (let text = strip para
      in if text = [] \<or> is_separator text then st
         else if isupper text \<and> length text > 2 then st\<lparr>current_category := Some text\<rparr>
         else
           let lines_in_para = split 10 text;
               word_line = strip (hd lines_in_para);
               example_line = (if length lines_in_para > 1 then strip (lines_in_para ! 1) else [])
           in case (if 10 \<in> set text then match_word word_line else None) of
                Some (g1, g2, g3, g4) \<Rightarrow>
                  st\<lparr>words := append_current st,
                     current_word := Some
                       \<lparr>number = int_of_digits g1, english = strip g2,
                        pronunciation = strip g3, polish = strip g4,
                        example = (if startswith (lower example_line) (str ''ex:'')
                                   then Some (strip (drop 3 example_line)) else None),
                        category = current_category st\<rparr>\<rparr>
              | None \<Rightarrow>
                  (case match_word text of
                     Some (g1, g2, g3, g4) \<Rightarrow>
                       st\<lparr>words := append_current st,
                          current_word := Some
                            \<lparr>number = int_of_digits g1, english = strip g2,
                             pronunciation = strip g3, polish = strip g4,
                             example = None, category = current_category st\<rparr>\<rparr>
                   | None \<Rightarrow>
                       (case current_word st of
                          None \<Rightarrow> st
                        | Some w \<Rightarrow>
                            (case match_example text of
                               Some g \<Rightarrow> st\<lparr>current_word := Some (w\<lparr>example := Some (strip g)\<rparr>)\<rparr>
                             | None \<Rightarrow>
                                 if startswith (lower text) (str ''ex:'') \<and> strip (drop 3 text) \<noteq> []
                                 then st\<lparr>current_word :=
                                         Some (w\<lparr>example := Some (strip (drop 3 text))\<rparr>)\<rparr>
                                 else st))))"

text \<open>
  \<open>WordParser.parse_document\<close>, on the texts of the paragraphs of the document, in order
  (\<open>para.text\<close> for \<open>para\<close> in \<open>doc.paragraphs\<close>).
\<close>

definition parse_document :: "pystr list \<Rightarrow> word list" where
  "parse_document paragraphs = append_current (foldl doc_step init_parse paragraphs)"

subsection \<open>Formatting for display\<close>





section \<open>Derived notions and test data\<close>

text \<open>
  The texts \<open>_generate_word_files\<close> sends to speech synthesis for one record, in call
  order, read off its three branches.
\<close>

definition spoken :: "bool \<Rightarrow> pystr option \<Rightarrow> pystr \<Rightarrow> pystr \<Rightarrow> pystr \<Rightarrow> pystr list" where
  "spoken inc mode e p x =
     (if mode = Some (str ''pl_to_en'') then [p, e]
      else if mode = Some (str ''en_to_pl'') then [e, p]
      else if inc \<and> x \<noteq> [] then [e, p, x] else [e, p])"

text \<open>The headword after the cleaning step of the loop of \<open>generate_audio\<close>.\<close>

definition headword_text :: "pystr \<Rightarrow> pystr" where
  "headword_text e = (if 40 \<in> set e then strip (hd (split 40 e)) else e)"

text \<open>The texts synthesized for one record of the list: none for a skipped record.\<close>

definition record_texts :: "bool \<Rightarrow> pystr option \<Rightarrow> word \<Rightarrow> pystr list" where
  "record_texts inc mode w =
     (let e = strip (english w); p = strip (polish w); x = strip (get_or (example w) [])
      in if e = [] \<or> p = [] then [] else spoken inc mode (headword_text e) p x)"


text \<open>The state a run of \<open>generate_audio\<close> ends in, with the logs of its external calls.\<close>

definition final_state :: "env \<Rightarrow> word list \<Rightarrow> settings \<Rightarrow> gen_state" where
  "final_state E ws S = snd (snd (generate_audio E ws S))"

text \<open>The state after one call of \<open>_generate_silence\<close>, which never raises.\<close>

definition silence_step :: "env \<Rightarrow> rat \<Rightarrow> gen_state \<Rightarrow> gen_state" where
  "silence_step E d st = snd (generate_silence E d st)"

text \<open>The local variables of \<open>generate_audio\<close> and the state when its loop starts.\<close>

definition run_of :: "settings \<Rightarrow> run" where
  "run_of S = \<lparr>r_speed = get_or (speed S) 1, r_pause_between = get_or (pause_between S) 2,
     r_repetitions = get_or (repetitions S) 1,
     r_include_examples = get_or (include_examples S) True, r_test_mode = test_mode S,
     r_voice = get_or (voice S) DEFAULT_VOICE,
     silence_1s_path = Silence_mp3 1, silence_between_path = Silence_mp3 2,
     silence_test_path = Silence_mp3 3\<rparr>"

definition after_silences :: "env \<Rightarrow> settings \<Rightarrow> gen_state" where
  "after_silences E S =
     silence_step E TEST_PAUSE_DURATION
       (silence_step E (get_or (pause_between S) 2) (silence_step E 1 init_state))"

text \<open>The files of synthesized speech among the files of a run.\<close>

definition is_speech :: "path \<Rightarrow> bool" where
  "is_speech p = (case p of Audio_mp3 n \<Rightarrow> True | _ \<Rightarrow> False)"

text \<open>An empty settings dictionary: every default applies.\<close>

definition default_settings :: settings where
  "default_settings = \<lparr>speed = None, pause_between = None, repetitions = None,
     include_examples = None, test_mode = None, voice = None\<rparr>"

text \<open>
  A test double for the collaborators: synthesis returns the code points of the text as
  audio bytes, silence is an empty file, and concatenation joins the listed files.
\<close>

definition fake_env :: env where
  "fake_env = \<lparr>text_to_speech = (\<lambda>text voice' speed'. Some text),
     ffmpeg_silence = (\<lambda>d. (0, Some [])),
     ffmpeg_concat = (\<lambda>file_list fs. (0, Some (concat (map (\<lambda>p. get_or (fs p) []) file_list))))\<rparr>"


text \<open>Three records: a complete one, one without translation, one with a parenthetical.\<close>

definition run_word :: word where
  "run_word = \<lparr>number = 1, english = str ''run'', pronunciation = str ''ran'',
     polish = str ''biegac'', example = Some (str ''She runs fast.''),
     category = Some (str ''CZASOWNIKI'')\<rparr>"

definition bad_word :: word where
  "bad_word = \<lparr>number = 2, english = str ''walk'', pronunciation = str ''lok'',
     polish = [], example = Some (str ''He walks.''), category = None\<rparr>"

definition light_word :: word where
  "light_word = \<lparr>number = 3, english = str ''light (adj.)'', pronunciation = str ''lajt'',
     polish = str ''lekki'', example = Some (str ''   ''), category = None\<rparr>"









text \<open>Test texts: an entry compressed into one line, an entry of two lines, a list with a header.\<close>

definition compressed_line :: pystr where
  "compressed_line = str ''1. run (ran) - biegac ex: She runs fast.''"



section \<open>Properties of the audio generator\<close>

subsection \<open>The logs of a run\<close>

lemma bind_cases:
  assumes "bind m f st = (r, st'')"
  obtains (fail) e where "m st = (Inl e, st'')" "r = Inl e"
        | (ok) x st' where "m st = (Inr x, st')" "f x st' = (r, st'')"
  using assms by (auto simp: bind_def split: prod.splits sum.splits)

lemma text_to_file_logs:
  assumes "text_to_file E t s v st = (r, st')"
  shows "tts_log st' = tts_log st @ [(t, v, s)]" and "silence_log st' = silence_log st"
  using assms by (auto simp: text_to_file_def Let_def split: option.splits)

lemma generate_silence_logs:
  assumes "generate_silence E d st = (r, st')"
  shows "tts_log st' = tts_log st" and "silence_log st' = silence_log st @ [d]"
    and "\<exists>p. r = Inr p"
  using assms by (auto simp: generate_silence_def Let_def split: prod.splits)

lemma generate_word_files_silence:
  assumes "generate_word_files E e p x inc mode s v s1 s2 st = (r, st')"
  shows "silence_log st' = silence_log st"
  using assms unfolding generate_word_files_def
  by (auto split: if_splits elim!: bind_cases dest!: text_to_file_logs(2) simp: ret_def)

lemma generate_word_files_tts:
  assumes "generate_word_files E e p x inc mode s v s1 s2 st = (Inr fs, st')"
  shows "tts_log st' = tts_log st @ map (\<lambda>t. (t, v, s)) (spoken inc mode e p x)"
  using assms unfolding generate_word_files_def spoken_def
  by (auto split: if_splits elim!: bind_cases dest!: text_to_file_logs(1) simp: ret_def)

lemma generate_word_files_tts_any:
  assumes "generate_word_files E e p x inc mode s v s1 s2 st = (r, st')"
  shows "set (tts_log st') \<subseteq> set (tts_log st) \<union> {c. snd c = (v, s)}"
  using assms unfolding generate_word_files_def
  by (auto split: if_splits elim!: bind_cases dest!: text_to_file_logs(1) simp: ret_def)

lemma words_loop_valid:
  assumes "strip (english w) \<noteq> []" "strip (polish w) \<noteq> []"
  shows "words_loop E R n i (w # ws) fl st =
     bind (generate_word_files E (headword_text (strip (english w))) (strip (polish w))
         (strip (get_or (example w) [])) (r_include_examples R) (r_test_mode R) (r_speed R)
         (r_voice R) (silence_1s_path R) (silence_test_path R))
       (\<lambda>word_files. words_loop E R n (i + 1) ws
         (repeat_files (r_repetitions R) word_files (silence_1s_path R) fl @
          (if i < n then [silence_between_path R] else []))) st"
  using assms by (simp add: Let_def headword_text_def)

lemma words_loop_Cons_cases:
  assumes "words_loop E R n i (w # ws) fl st = (r, st')"
  obtains (skip) "strip (english w) = [] \<or> strip (polish w) = []"
      "words_loop E R n (i + 1) ws fl st = (r, st')"
    | (fail) e where "strip (english w) \<noteq> []" "strip (polish w) \<noteq> []"
      "generate_word_files E (headword_text (strip (english w))) (strip (polish w))
         (strip (get_or (example w) [])) (r_include_examples R) (r_test_mode R) (r_speed R)
         (r_voice R) (silence_1s_path R) (silence_test_path R) st = (Inl e, st')" "r = Inl e"
    | (step) word_files st1 where "strip (english w) \<noteq> []" "strip (polish w) \<noteq> []"
      "generate_word_files E (headword_text (strip (english w))) (strip (polish w))
         (strip (get_or (example w) [])) (r_include_examples R) (r_test_mode R) (r_speed R)
         (r_voice R) (silence_1s_path R) (silence_test_path R) st = (Inr word_files, st1)"
      "words_loop E R n (i + 1) ws
         (repeat_files (r_repetitions R) word_files (silence_1s_path R) fl @
          (if i < n then [silence_between_path R] else [])) st1 = (r, st')"
proof (cases "strip (english w) = [] \<or> strip (polish w) = []")
  case True
  with assms skip show ?thesis by (simp add: Let_def)
next
  case False
  then have ne: "strip (english w) \<noteq> []" "strip (polish w) \<noteq> []" by simp_all
  from assms show ?thesis
    unfolding words_loop_valid[OF ne]
    using ne fail step by (elim bind_cases) auto
qed

lemma words_loop_silence:
  "words_loop E R n i ws fl st = (r, st') \<Longrightarrow> silence_log st' = silence_log st"
proof (induction ws arbitrary: i fl st)
  case Nil
  then show ?case by (simp add: ret_def)
next
  case (Cons w ws)
  from Cons.prems show ?case
  proof (cases rule: words_loop_Cons_cases)
    case skip
    then show ?thesis using Cons.IH by blast
  next
    case (fail e)
    then show ?thesis by (blast dest: generate_word_files_silence)
  next
    case (step word_files st1)
    then show ?thesis using Cons.IH generate_word_files_silence by metis
  qed
qed

lemma words_loop_tts:
  "words_loop E R n i ws fl st = (Inr fl', st') \<Longrightarrow>
   tts_log st' = tts_log st @
     map (\<lambda>t. (t, r_voice R, r_speed R))
       (concat (map (record_texts (r_include_examples R) (r_test_mode R)) ws))"
proof (induction ws arbitrary: i fl st)
  case Nil
  then show ?case by (simp add: ret_def)
next
  case (Cons w ws)
  from Cons.prems show ?case
  proof (cases rule: words_loop_Cons_cases)
    case skip
    from Cons.IH[OF skip(2)] skip(1) show ?thesis
      by (auto simp: record_texts_def Let_def)
  next
    case (fail e)
    then show ?thesis by simp
  next
    case (step word_files st1)
    from Cons.IH[OF step(4)] generate_word_files_tts[OF step(3)] step(1,2) show ?thesis
      by (simp add: record_texts_def Let_def)
  qed
qed

lemma words_loop_tts_any:
  "words_loop E R n i ws fl st = (r, st') \<Longrightarrow>
   set (tts_log st') \<subseteq> set (tts_log st) \<union> {c. snd c = (r_voice R, r_speed R)}"
proof (induction ws arbitrary: i fl st)
  case Nil
  then show ?case by (simp add: ret_def)
next
  case (Cons w ws)
  from Cons.prems show ?case
  proof (cases rule: words_loop_Cons_cases)
    case skip
    then show ?thesis using Cons.IH by blast
  next
    case (fail e)
    then show ?thesis by (blast dest: generate_word_files_tts_any)
  next
    case (step word_files st1)
    from Cons.IH[OF step(4)] generate_word_files_tts_any[OF step(3)] show ?thesis by blast
  qed
qed

lemma bind_generate_silence:
  "bind (generate_silence E d) f st = f (Silence_mp3 (file_counter st + 1)) (silence_step E d st)"
  by (simp add: bind_def generate_silence_def silence_step_def Let_def split: prod.splits)

lemma silence_step_simps:
  "file_counter (silence_step E d st) = file_counter st + 1"
  "silence_log (silence_step E d st) = silence_log st @ [d]"
  "tts_log (silence_step E d st) = tts_log st"
  by (simp_all add: generate_silence_def silence_step_def Let_def split: prod.splits)

lemma after_silences_logs:
  "silence_log (after_silences E S) = [1, get_or (pause_between S) 2, TEST_PAUSE_DURATION]"
  "tts_log (after_silences E S) = []"
  by (simp_all add: after_silences_def silence_step_simps init_state_def)

lemma build_file_list_eq:
  "build_file_list E ws S init_state =
     words_loop E (run_of S) (length ws) 1 ws [] (after_silences E S)"
  by (simp add: build_file_list_def Let_def bind_generate_silence silence_step_simps
        after_silences_def run_of_def init_state_def numeral_2_eq_2 numeral_3_eq_3)

lemma generate_audio_state:
  "\<exists>r st. build_file_list E ws S init_state = (r, st) \<and>
     silence_log (final_state E ws S) = silence_log st \<and>
     tts_log (final_state E ws S) = tts_log st \<and>
     (fst (generate_audio E ws S) = (case r of Inl e \<Rightarrow> Inl e
        | Inr fl \<Rightarrow> Inr (get_or (snd (ffmpeg_concat E fl (files st))) [])))"
  by (cases "build_file_list E ws S init_state")
     (auto simp: final_state_def generate_audio_def bind_def concat_files_def read_output_def
        cleanup_def get_or_def split: prod.splits sum.splits option.splits)

lemmas str_eval = str_def strip_def is_space_def get_or_def Let_def

lemmas audio_eval = build_file_list_def bind_def ret_def generate_silence_def text_to_file_def
  generate_word_files_def repeat_files_def init_state_def TEST_PAUSE_DURATION_def
  DEFAULT_VOICE_def upt_rec str_eval

lemmas run_eval = generate_audio_def final_state_def concat_files_def read_output_def cleanup_def
  audio_eval

lemma final_state_logs:
  "silence_log (final_state E ws S) = [1, get_or (pause_between S) 2, TEST_PAUSE_DURATION]"
  "set (tts_log (final_state E ws S)) \<subseteq> {c. snd c = (get_or (voice S) DEFAULT_VOICE, get_or (speed S) 1)}"
proof -
  obtain r st where b: "build_file_list E ws S init_state = (r, st)"
    and s: "silence_log (final_state E ws S) = silence_log st"
    and t: "tts_log (final_state E ws S) = tts_log st"
    using generate_audio_state by blast
  from b have l: "words_loop E (run_of S) (length ws) 1 ws [] (after_silences E S) = (r, st)"
    by (simp add: build_file_list_eq)
  from words_loop_silence[OF l] s
  show "silence_log (final_state E ws S) = [1, get_or (pause_between S) 2, TEST_PAUSE_DURATION]"
    by (simp add: after_silences_logs)
  from words_loop_tts_any[OF l] t
  show "set (tts_log (final_state E ws S)) \<subseteq> {c. snd c = (get_or (voice S) DEFAULT_VOICE, get_or (speed S) 1)}"
    by (simp add: after_silences_logs run_of_def)
qed

lemma final_state_tts:
  assumes "fst (generate_audio E ws S) = Inr out"
  shows "tts_log (final_state E ws S) =
     map (\<lambda>t. (t, get_or (voice S) DEFAULT_VOICE, get_or (speed S) 1))
       (concat (map (record_texts (get_or (include_examples S) True) (test_mode S)) ws))"
proof -
  obtain r st where b: "build_file_list E ws S init_state = (r, st)"
    and t: "tts_log (final_state E ws S) = tts_log st"
    and g: "fst (generate_audio E ws S) = (case r of Inl e \<Rightarrow> Inl e
        | Inr fl \<Rightarrow> Inr (get_or (snd (ffmpeg_concat E fl (files st))) []))"
    using generate_audio_state by blast
  from g assms obtain fl where "r = Inr fl" by (cases r) auto
  with b have l: "words_loop E (run_of S) (length ws) 1 ws [] (after_silences E S) = (Inr fl, st)"
    by (simp add: build_file_list_eq)
  from words_loop_tts[OF l] t show ?thesis
    by (simp add: after_silences_logs run_of_def)
qed

lemma not_space_paren: "\<not> is_space 40"
  by (simp add: is_space_def)

lemma dropWhile_append_stop:
  "\<not> P y \<Longrightarrow> dropWhile P (xs @ y # ys) = dropWhile P xs @ y # ys"
  by (induction xs) auto

lemma strip_around:
  "\<not> is_space c \<Longrightarrow>
   strip (pre @ c # post) = dropWhile is_space pre @ c # rev (dropWhile is_space (rev post))"
  by (simp add: strip_def dropWhile_append_stop)

lemma strip_dropWhile: "strip (dropWhile is_space s) = strip s"
  by (simp add: strip_def)

lemma split_not_Nil: "split c s \<noteq> []"
  by (induction s) (auto split: list.splits)

lemma hd_split: "hd (split c s) = takeWhile (\<lambda>x. x \<noteq> c) s"
  by (induction s) (auto simp: split_not_Nil split: list.splits)

lemma headword_text_paren:
  assumes "40 \<notin> set pre"
  shows "headword_text (strip (pre @ 40 # post)) = strip pre"
proof -
  have m: "40 \<notin> set (dropWhile is_space pre)"
    using assms set_dropWhileD by fastforce
  have "takeWhile (\<lambda>x. x \<noteq> 40) (dropWhile is_space pre @ 40 # rev (dropWhile is_space (rev post)))
      = dropWhile is_space pre"
    using m by (subst takeWhile_append2) auto
  then show ?thesis
    by (simp add: headword_text_def strip_around not_space_paren hd_split strip_dropWhile)
qed

lemma record_texts_paren:
  assumes "english w = pre @ 40 # post" "40 \<notin> set pre" "strip (polish w) \<noteq> []"
  shows "record_texts inc mode w =
     spoken inc mode (strip pre) (strip (polish w)) (strip (get_or (example w) []))"
proof -
  have "strip (english w) \<noteq> []"
    using assms(1) by (simp add: strip_around not_space_paren)
  moreover have "headword_text (strip (english w)) = strip pre"
    using assms(1,2) by (simp add: headword_text_paren)
  ultimately show ?thesis
    using assms(3) by (simp add: record_texts_def)
qed

lemma generate_audio_words: "fst (snd (generate_audio E ws S)) = ws"
  by (simp add: generate_audio_def split: prod.splits)


subsection \<open>Counting the segments\<close>

lemma text_to_file_path:
  "text_to_file E t s v st = (Inr p, st') \<Longrightarrow> is_speech p"
  by (auto simp: text_to_file_def Let_def is_speech_def split: option.splits)

lemma generate_word_files_normal:
  assumes "generate_word_files E e p x True mode s v s1 s2 st = (Inr gfiles, st')"
    and "mode \<noteq> Some (str ''pl_to_en'')" "mode \<noteq> Some (str ''en_to_pl'')" "x \<noteq> []"
  shows "\<exists>f1 f2 f3. gfiles = [f1, s1, f2, s1, f3] \<and> is_speech f1 \<and> is_speech f2 \<and> is_speech f3"
  using assms unfolding generate_word_files_def
  by (auto elim!: bind_cases simp: ret_def dest!: text_to_file_path)

lemma repeat_files_once: "repeat_files 1 gfiles s1 fl = fl @ gfiles"
  by (simp add: repeat_files_def)

lemma words_loop_counts:
  assumes "words_loop E R n i ws fl st = (Inr fl', st')"
    and "\<forall>w \<in> set ws. strip (english w) \<noteq> [] \<and> strip (polish w) \<noteq> [] \<and>
           strip (get_or (example w) []) \<noteq> []"
    and "r_test_mode R \<noteq> Some (str ''pl_to_en'')" "r_test_mode R \<noteq> Some (str ''en_to_pl'')"
    and "r_repetitions R = 1" "r_include_examples R"
    and "\<not> is_speech (silence_1s_path R)" "\<not> is_speech (silence_between_path R)"
    and "silence_1s_path R \<noteq> silence_between_path R"
  shows "length (filter is_speech fl') = length (filter is_speech fl) + 3 * length ws \<and>
         count_list fl' (silence_between_path R) =
           count_list fl (silence_between_path R) + (min (i + length ws) n - min i n)"
  using assms(1,2)
proof (induction ws arbitrary: i fl st)
  case Nil
  then show ?case by (simp add: ret_def)
next
  case (Cons w ws)
  from Cons.prems(2) have v: "strip (english w) \<noteq> []" "strip (polish w) \<noteq> []"
    "strip (get_or (example w) []) \<noteq> []" and r: "\<forall>w \<in> set ws. strip (english w) \<noteq> [] \<and>
       strip (polish w) \<noteq> [] \<and> strip (get_or (example w) []) \<noteq> []"
    by simp_all
  from Cons.prems(1) show ?case
  proof (cases rule: words_loop_Cons_cases)
    case skip
    with v show ?thesis by simp
  next
    case (fail e)
    then show ?thesis by simp
  next
    case (step gfiles st1)
    from step(3) assms(6) have "generate_word_files E (headword_text (strip (english w)))
        (strip (polish w)) (strip (get_or (example w) [])) True (r_test_mode R) (r_speed R)
        (r_voice R) (silence_1s_path R) (silence_test_path R) st = (Inr gfiles, st1)" by simp
    from generate_word_files_normal[OF this assms(3,4) v(3)]
    obtain f1 f2 f3 where gfiles: "gfiles = [f1, silence_1s_path R, f2, silence_1s_path R, f3]"
      "is_speech f1" "is_speech f2" "is_speech f3" by blast
    let ?fl = "repeat_files (r_repetitions R) gfiles (silence_1s_path R) fl @
          (if i < n then [silence_between_path R] else [])"
    have a: "length (filter is_speech ?fl) = length (filter is_speech fl) + 3"
      using gfiles assms(5,7,8) by (simp add: repeat_files_once)
    have b: "count_list ?fl (silence_between_path R) =
        count_list fl (silence_between_path R) + (if i < n then 1 else 0)"
      using gfiles assms(5,7,8,9) by (auto simp: repeat_files_once)
    from Cons.IH[OF step(4) r] a b show ?thesis
      by (auto simp: min_def)
  qed
qed

text \<open>
  The segment-count law: in the normal mode, with one repetition and examples read, a list
  of valid records that all have an example gives three speech segments for each record
  and one silence between records less than there are records.
\<close>

lemma segment_count_law:
  assumes "build_file_list E ws S init_state = (Inr fl, st)"
    and "\<forall>w \<in> set ws. strip (english w) \<noteq> [] \<and> strip (polish w) \<noteq> [] \<and>
           strip (get_or (example w) []) \<noteq> []"
    and "test_mode S = None" and "get_or (repetitions S) 1 = 1"
    and "get_or (include_examples S) True"
  shows "length (filter is_speech fl) = 3 * length ws \<and>
         count_list fl (Silence_mp3 2) = length ws - 1"
proof -
  from assms(1) have "words_loop E (run_of S) (length ws) 1 ws [] (after_silences E S) = (Inr fl, st)"
    by (simp add: build_file_list_eq)
  from words_loop_counts[OF this assms(2)] assms(3,4,5) show ?thesis
    by (simp add: run_of_def is_speech_def)
qed

subsection \<open>Claims about the audio generator\<close>




text \<open>
  Claim C2 at an input where the code departs from it: a valid record followed by a record
  without translation. The skipped record still counts in \<open>i < len(words)\<close>, so the list of
  files ends with the silence between records (\<open>silence_2.mp3\<close>) after the last valid record.
\<close>

theorem pause_after_last_valid_record:
  "fst (build_file_list fake_env [run_word, bad_word] default_settings init_state) =
     Inr [Audio_mp3 4, Silence_mp3 1, Audio_mp3 5, Silence_mp3 1, Audio_mp3 6, Silence_mp3 2]"
  by (simp add: audio_eval fake_env_def default_settings_def run_word_def bad_word_def)

text \<open>
  Claim C3, as amended. Every run asks the silence generator exactly three times, for
  1.0 s, the pause between records and the quiz pause, in this order and whether or not
  two of the durations are equal; nothing is cached by duration.
\<close>

theorem silence_generated_once_per_role:
  "silence_log (final_state E ws S) = [1, get_or (pause_between S) 2, TEST_PAUSE_DURATION]"
  by (rule final_state_logs(1))

text \<open>
  Claim C3 as stated fails: with the default settings the pause between records and the
  quiz pause are both 2.0 s, and silence of 2.0 s is generated twice.
\<close>

theorem silence_not_memoized_counterexample:
  "silence_log (final_state fake_env [] default_settings) = [1, 2, 2] \<and>
   \<not> distinct (silence_log (final_state fake_env [] default_settings))"
  by (simp add: run_eval fake_env_def default_settings_def run_word_def)

text \<open>
  Claim C4, as amended. In every run that completes, the texts sent to speech synthesis
  are those of the valid records, each phrase of a record once, in order: the number of
  repetitions plays no part, the repeats reuse the files of the first synthesis.
\<close>

theorem one_synthesis_per_phrase:
  assumes "fst (generate_audio E ws S) = Inr out"
  shows "map fst (tts_log (final_state E ws S)) =
     concat (map (record_texts (get_or (include_examples S) True) (test_mode S)) ws)"
  using final_state_tts[OF assms] by (simp add: comp_def)

theorem one_synthesis_per_phrase_witness:
  "fst (generate_audio fake_env [run_word] (default_settings\<lparr>repetitions := Some 2\<rparr>)) =
     Inr (str ''runbiegacShe runs fast.runbiegacShe runs fast.'') \<and>
   map fst (tts_log (final_state fake_env [run_word] (default_settings\<lparr>repetitions := Some 2\<rparr>))) =
     [str ''run'', str ''biegac'', str ''She runs fast.'']"
proof -
  have a: "fst (generate_audio fake_env [run_word] (default_settings\<lparr>repetitions := Some 2\<rparr>)) =
     Inr (str ''runbiegacShe runs fast.runbiegacShe runs fast.'')"
    by (simp add: run_eval fake_env_def default_settings_def run_word_def record_texts_def
        spoken_def headword_text_def)
  have b: "concat (map (record_texts (get_or (include_examples (default_settings\<lparr>repetitions := Some 2\<rparr>)) True)
       (test_mode (default_settings\<lparr>repetitions := Some 2\<rparr>))) [run_word]) =
     [str ''run'', str ''biegac'', str ''She runs fast.'']"
    by (simp add: run_eval fake_env_def default_settings_def run_word_def record_texts_def
        spoken_def headword_text_def)
  from one_synthesis_per_phrase[OF a] a b show ?thesis by simp
qed

text \<open>
  Claim C4 as stated fails: with two repetitions of one record the list of files holds
  six speech segments, and three synthesis calls were made.
\<close>

theorem repeats_reuse_synthesis_counterexample:
  "fst (build_file_list fake_env [run_word] (default_settings\<lparr>repetitions := Some 2\<rparr>) init_state) =
     Inr [Audio_mp3 4, Silence_mp3 1, Audio_mp3 5, Silence_mp3 1, Audio_mp3 6, Silence_mp3 1,
          Audio_mp3 4, Silence_mp3 1, Audio_mp3 5, Silence_mp3 1, Audio_mp3 6] \<and>
   length (tts_log (final_state fake_env [run_word] (default_settings\<lparr>repetitions := Some 2\<rparr>))) = 3"
  by (simp add: run_eval fake_env_def default_settings_def run_word_def record_texts_def
      spoken_def headword_text_def)

text \<open>
  Claim C6, as amended. \<open>generate_audio\<close> checks no range: the pause between records of the
  settings is the duration asked of the silence generator, and the speed of the settings
  is the speed of every synthesis call, whatever their values.
\<close>

theorem settings_passed_unchecked:
  "silence_log (final_state E ws S) ! 1 = get_or (pause_between S) 2 \<and>
   (\<forall>c \<in> set (tts_log (final_state E ws S)). snd (snd c) = get_or (speed S) 1)"
  using final_state_logs[of E ws S] by auto

theorem settings_passed_unchecked_witness:
  "silence_log (final_state fake_env [run_word]
      (default_settings\<lparr>speed := Some 3, pause_between := Some 10\<rparr>)) ! 1 = 10 \<and>
   map (\<lambda>c. snd (snd c)) (tts_log (final_state fake_env [run_word]
      (default_settings\<lparr>speed := Some 3, pause_between := Some 10\<rparr>))) = [3, 3, 3]"
  using settings_passed_unchecked[of fake_env "[run_word]"
      "default_settings\<lparr>speed := Some 3, pause_between := Some 10\<rparr>"]
  by (simp add: run_eval fake_env_def default_settings_def run_word_def)

text \<open>
  Claim C6 as stated fails: a speed of 3.0 and a pause of 10.0 s reach the synthesis and
  silence backends as they are.
\<close>

theorem out_of_range_counterexample:
  "tts_log (final_state fake_env [run_word]
      (default_settings\<lparr>speed := Some 3, pause_between := Some 10\<rparr>)) =
     [(str ''run'', str ''echo'', 3), (str ''biegac'', str ''echo'', 3),
      (str ''She runs fast.'', str ''echo'', 3)] \<and>
   silence_log (final_state fake_env [run_word]
      (default_settings\<lparr>speed := Some 3, pause_between := Some 10\<rparr>)) = [1, 10, 2]"
  by (simp add: run_eval fake_env_def default_settings_def run_word_def)

text \<open>
  Claim C9. For a valid record whose headword holds a parenthesis, the headword text sent
  to speech synthesis is the text before the first parenthesis, trimmed, and the list of
  records the caller holds is unchanged by the run.
\<close>

theorem parenthetical_stripped_for_synthesis:
  assumes "english w = pre @ 40 # post" and "40 \<notin> set pre" and "strip (polish w) \<noteq> []"
    and "fst (generate_audio E (ws1 @ w # ws2) S) = Inr out"
  shows "fst (snd (generate_audio E (ws1 @ w # ws2) S)) = ws1 @ w # ws2 \<and>
     map fst (tts_log (final_state E (ws1 @ w # ws2) S)) =
       concat (map (record_texts (get_or (include_examples S) True) (test_mode S)) ws1) @
       spoken (get_or (include_examples S) True) (test_mode S)
         (strip pre) (strip (polish w)) (strip (get_or (example w) [])) @
       concat (map (record_texts (get_or (include_examples S) True) (test_mode S)) ws2)"
  using final_state_tts[OF assms(4)] record_texts_paren[OF assms(1-3)]
  by (simp add: generate_audio_words comp_def)

theorem parenthetical_stripped_for_synthesis_witness:
  "english light_word = str ''light '' @ 40 # str ''adj.)'' \<and> 40 \<notin> set (str ''light '') \<and>
   strip (polish light_word) \<noteq> [] \<and>
   fst (generate_audio fake_env ([run_word] @ light_word # []) default_settings) =
     Inr (str ''runbiegacShe runs fast.lightlekki'') \<and>
   fst (snd (generate_audio fake_env ([run_word] @ light_word # []) default_settings)) =
     [run_word, light_word] \<and>
   map fst (tts_log (final_state fake_env ([run_word] @ light_word # []) default_settings)) =
     [str ''run'', str ''biegac'', str ''She runs fast.'', str ''light'', str ''lekki'']"
proof -
  have a: "english light_word = str ''light '' @ 40 # str ''adj.)''"
    and b: "40 \<notin> set (str ''light '')" and c: "strip (polish light_word) \<noteq> []"
    and d: "fst (generate_audio fake_env ([run_word] @ light_word # []) default_settings) =
     Inr (str ''runbiegacShe runs fast.lightlekki'')"
    by (simp_all add: run_eval fake_env_def default_settings_def run_word_def light_word_def)
  from parenthetical_stripped_for_synthesis[OF a b c d] a b c d show ?thesis
    by (simp add: run_eval fake_env_def default_settings_def run_word_def light_word_def
        record_texts_def spoken_def headword_text_def)
qed



section \<open>Properties of the word parser\<close>

subsection \<open>Splitting, trimming and joining\<close>












subsection \<open>The groups of a match are drawn from the line\<close>










subsection \<open>The steps of the text parser\<close>













subsection \<open>Reading the display rendering back\<close>

























lemmas parse_eval = parse_text_def parse_lines_def text_step_def append_current_def
  init_parse_def match_word_def match_tail_def match_example_def dot_plus_def dot_plus_end_def
  is_separator_def isupper_def is_upper_cp_def is_lower_cp_def lower_def lower_cp_def
  startswith_def is_digit_def int_of_digits_def str_def strip_def is_space_def Let_def

subsection \<open>Claims about the word parser\<close>

text \<open>
  Claim C5 at an input where the code departs from it: one paragraph that holds an entry
  compressed into one line. \<open>parse_document\<close> keeps the whole translation text, \<open>ex:\<close> and
  the example included, as the translation and gives no example; \<open>parse_text\<close> splits the
  same line at \<open>ex:\<close>.
\<close>

theorem document_parser_keeps_inline_example:
  "parse_document [compressed_line] =
     [\<lparr>number = 1, english = str ''run'', pronunciation = str ''ran'',
       polish = str ''biegac ex: She runs fast.'', example = None, category = None\<rparr>] \<and>
   parse_text compressed_line =
     [\<lparr>number = 1, english = str ''run'', pronunciation = str ''ran'',
       polish = str ''biegac'', example = Some (str ''She runs fast.''), category = None\<rparr>]"
  by (simp add: parse_eval parse_document_def doc_step_def compressed_line_def)






end
